theory Spec2Isabelle
  imports Complex_Main "HOL-Library.Char_ord" "HOL-Library.List_Lexorder"
    "HOL-Library.Product_Lexorder"
begin

section \<open>Enumerations of \<^verbatim>\<open>automl/schema/enums.py\<close>\<close>

text \<open>
  The member \<^verbatim>\<open>INTERGER\<close> keeps the spelling of the source; its string value is
  \<^verbatim>\<open>"integer"\<close>.
\<close>

datatype Dtypes = INTERGER | FLOAT | BOOLEAN | CATEGORICAL | DATE

datatype ColumnType = FEATURES | TARGET | INDEX | UNIQUEID

datatype FeatureType = Ordinal | Nominal | Continuous | "constant"

datatype ImputationScheme = MEAN | MEDIAN | MODE | VALUE

fun Dtypes_name :: "Dtypes \<Rightarrow> string" where
  "Dtypes_name INTERGER = ''INTERGER''"
| "Dtypes_name FLOAT = ''FLOAT''"
| "Dtypes_name BOOLEAN = ''BOOLEAN''"
| "Dtypes_name CATEGORICAL = ''CATEGORICAL''"
| "Dtypes_name DATE = ''DATE''"

fun ImputationScheme_value :: "ImputationScheme \<Rightarrow> string" where
  "ImputationScheme_value MEAN = ''mean''"
| "ImputationScheme_value MEDIAN = ''median''"
| "ImputationScheme_value MODE = ''mode''"
| "ImputationScheme_value VALUE = ''value''"

text \<open>
  Attribute access on the class \<^verbatim>\<open>FeatureType\<close>: the members are looked up by name,
  and a name that is no member has no value (Python raises \<^verbatim>\<open>AttributeError\<close>).
\<close>

fun FeatureType_member :: "string \<Rightarrow> FeatureType option" where
  "FeatureType_member s =
     (if s = ''Ordinal'' then Some Ordinal
      else if s = ''Nominal'' then Some Nominal
      else if s = ''Continuous'' then Some Continuous
      else if s = ''constant'' then Some constant
      else None)"

fun ColumnType_value :: "ColumnType \<Rightarrow> string" where
  "ColumnType_value FEATURES = ''features''"
| "ColumnType_value TARGET = ''target''"
| "ColumnType_value INDEX = ''index''"
| "ColumnType_value UNIQUEID = ''unique-id''"

fun FeatureType_value :: "FeatureType \<Rightarrow> string" where
  "FeatureType_value Ordinal = ''Ordinal''"
| "FeatureType_value Nominal = ''Nominal''"
| "FeatureType_value Continuous = ''Continuous''"
| "FeatureType_value constant = ''constant''"

section \<open>Storage types\<close>

text \<open>
  The concrete scalar types of numpy that a column can be stored in, and the abstract
  classes of numpy's scalar hierarchy. \<^verbatim>\<open>np.issubdtype(d, c)\<close> holds when \<open>c\<close> is the
  scalar type of \<open>d\<close> or one of its base classes. In numpy \<^verbatim>\<open>timedelta64\<close> derives from
  \<^verbatim>\<open>signedinteger\<close>, \<^verbatim>\<open>datetime64\<close> and \<^verbatim>\<open>bool_\<close> derive from \<^verbatim>\<open>generic\<close> directly.
\<close>

datatype nptype =
    np_bool
  | np_int8 | np_int16 | np_int32 | np_int64
  | np_uint8 | np_uint16 | np_uint32 | np_uint64
  | np_float16 | np_float32 | np_float64
  | np_complex64 | np_complex128
  | np_datetime64 | np_timedelta64
  | np_object | np_str | np_bytes | np_void

datatype npclass =
    cls_generic | cls_number | cls_integer | cls_signedinteger | cls_unsignedinteger
  | cls_inexact | cls_floating | cls_complexfloating | cls_flexible | cls_character
  | cls_bool | cls_datetime64 | cls_timedelta64 | cls_object | cls_str | cls_bytes | cls_void

fun np_bases :: "nptype \<Rightarrow> npclass list" where
  "np_bases np_bool = [cls_bool, cls_generic]"
| "np_bases np_int8 = [cls_signedinteger, cls_integer, cls_number, cls_generic]"
| "np_bases np_int16 = [cls_signedinteger, cls_integer, cls_number, cls_generic]"
| "np_bases np_int32 = [cls_signedinteger, cls_integer, cls_number, cls_generic]"
| "np_bases np_int64 = [cls_signedinteger, cls_integer, cls_number, cls_generic]"
| "np_bases np_uint8 = [cls_unsignedinteger, cls_integer, cls_number, cls_generic]"
| "np_bases np_uint16 = [cls_unsignedinteger, cls_integer, cls_number, cls_generic]"
| "np_bases np_uint32 = [cls_unsignedinteger, cls_integer, cls_number, cls_generic]"
| "np_bases np_uint64 = [cls_unsignedinteger, cls_integer, cls_number, cls_generic]"
| "np_bases np_float16 = [cls_floating, cls_inexact, cls_number, cls_generic]"
| "np_bases np_float32 = [cls_floating, cls_inexact, cls_number, cls_generic]"
| "np_bases np_float64 = [cls_floating, cls_inexact, cls_number, cls_generic]"
| "np_bases np_complex64 = [cls_complexfloating, cls_inexact, cls_number, cls_generic]"
| "np_bases np_complex128 = [cls_complexfloating, cls_inexact, cls_number, cls_generic]"
| "np_bases np_datetime64 = [cls_datetime64, cls_generic]"
| "np_bases np_timedelta64 = [cls_timedelta64, cls_signedinteger, cls_integer, cls_number, cls_generic]"
| "np_bases np_object = [cls_object, cls_generic]"
| "np_bases np_str = [cls_str, cls_character, cls_flexible, cls_generic]"
| "np_bases np_bytes = [cls_bytes, cls_character, cls_flexible, cls_generic]"
| "np_bases np_void = [cls_void, cls_flexible, cls_generic]"

text \<open>
  What pandas infers about the categories of a categorical type
  (\<^verbatim>\<open>dtype.categories.inferred_type\<close>).
\<close>

datatype inferred = inf_string | inf_boolean | inf_integer | inf_floating | inf_datetime | inf_mixed

text \<open>
  A storage type as \<^verbatim>\<open>Dtypes.from_nptype\<close> receives it: a numpy dtype (the annotation of
  its parameter), or pandas' categorical type, which its first test is about.
\<close>

datatype dtype = NpDtype nptype | CategoricalDtype inferred

fun is_categorical_dtype :: "dtype \<Rightarrow> bool" where
  "is_categorical_dtype (CategoricalDtype _) = True"
| "is_categorical_dtype (NpDtype _) = False"

text \<open>
  \<^verbatim>\<open>np.issubdtype\<close> is only reached on a type that is not categorical.
\<close>

fun issubdtype :: "dtype \<Rightarrow> npclass \<Rightarrow> bool" where
  "issubdtype (NpDtype t) c = (c \<in> set (np_bases t))"
| "issubdtype (CategoricalDtype _) c = False"

section \<open>Exceptions\<close>

text \<open>
  An exception is its class, its message and its cause (\<^verbatim>\<open>raise ... from e\<close>). A message
  is kept as the pieces of the f-string that builds it: literal text and the values
  interpolated, so that what a message names can be read off without fixing how pandas
  prints it.
\<close>

datatype exn = TypeError | ValueError | KeyError | AttributeError | NotFittedError

datatype pyval = PyInt int | PyFloat rat | PyStr string | PyBool bool

datatype frag =
    Lit string
  | DtypeF dtype
  | DtypesF "(string \<times> dtype) list"
  | NamesF "string list"
  | ValueF "pyval option"
  | NatF nat

datatype error = Raise exn "frag list" "error option"

fun exn_of :: "error \<Rightarrow> exn" where
  "exn_of (Raise c _ _) = c"

fun message :: "error \<Rightarrow> frag list" where
  "message (Raise _ m _) = m"

fun cause :: "error \<Rightarrow> error option" where
  "cause (Raise _ _ c) = c"

section \<open>Type inference: \<^verbatim>\<open>Dtypes.from_nptype\<close>\<close>

definition from_nptype :: "dtype \<Rightarrow> error + Dtypes" where
  "from_nptype d =
     (if is_categorical_dtype d then Inr CATEGORICAL
      else if issubdtype d cls_integer then Inr INTERGER
      else if issubdtype d cls_floating then Inr FLOAT
      else if issubdtype d cls_bool then Inr BOOLEAN
      else if issubdtype d cls_datetime64 then Inr DATE
      else if issubdtype d cls_object \<or> issubdtype d cls_str then Inr CATEGORICAL
      else Inl (Raise ValueError [Lit ''Unsupported dtype: '', DtypeF d] None))"

section \<open>Columns and frames of the dataframe engine\<close>

text \<open>
  A cell of a column: a missing entry (\<^verbatim>\<open>NaN\<close>, \<^verbatim>\<open>None\<close>, \<^verbatim>\<open>NaT\<close>) or a value. Floating
  values are idealised as rationals; a date is its timestamp.
\<close>

datatype cell = NA | IntV int | FloatV rat | BoolV bool | StrV string | DateV int

record Series =
  s_dtype :: dtype
  s_values :: "cell list"

text \<open>
  A frame has a row index and named columns, in order; two columns may carry the same
  name. Every column of a frame has one cell per row of the index.
\<close>

record DataFrame =
  index :: "int list"
  data :: "(string \<times> Series) list"

definition columns :: "DataFrame \<Rightarrow> string list" where
  "columns df = map fst (data df)"

definition shape :: "DataFrame \<Rightarrow> nat \<times> nat" where
  "shape df = (length (index df), length (data df))"

text \<open>\<^verbatim>\<open>DataFrame.empty\<close>: one of the two axes has length 0.\<close>

definition empty :: "DataFrame \<Rightarrow> bool" where
  "empty df = (length (index df) = 0 \<or> length (data df) = 0)"

text \<open>
  \<^verbatim>\<open>dataset[colname]\<close>: a missing name raises \<^verbatim>\<open>KeyError\<close>, a name that one column
  carries selects that column as a Series, a name that several columns carry selects
  the sub-frame of all of them.
\<close>

datatype selection = OneSeries Series | SubFrame "Series list"

definition getitem :: "DataFrame \<Rightarrow> string \<Rightarrow> error + selection" where
  "getitem df c =
     (case filter (\<lambda>(n, s). n = c) (data df) of
        [] \<Rightarrow> Inl (Raise KeyError [Lit c] None)
      | [(n, s)] \<Rightarrow> Inr (OneSeries s)
      | ss \<Rightarrow> Inr (SubFrame (map snd ss)))"

subsection \<open>Descriptive statistics of a Series\<close>

text \<open>All of them skip the missing entries, as pandas does by default.\<close>

definition notna :: "cell list \<Rightarrow> cell list" where
  "notna xs = filter (\<lambda>c. c \<noteq> NA) xs"

definition series_count :: "Series \<Rightarrow> nat" where
  "series_count s = length (notna (s_values s))"

definition isna_sum :: "Series \<Rightarrow> nat" where
  "isna_sum s = length (filter (\<lambda>c. c = NA) (s_values s))"

definition nunique :: "Series \<Rightarrow> nat" where
  "nunique s = length (remdups (notna (s_values s)))"

text \<open>A Python float: finite (idealised), or \<^verbatim>\<open>nan\<close>.\<close>

datatype pyfloat = Finite rat | NaN

text \<open>
  The number a cell of a numeric column stands for (\<^verbatim>\<open>True\<close> is 1). A numeric column
  holds no text and no date.
\<close>

fun num_of :: "cell \<Rightarrow> rat" where
  "num_of (IntV i) = of_int i"
| "num_of (FloatV q) = q"
| "num_of (BoolV b) = (if b then 1 else 0)"
| "num_of _ = 0"

text \<open>\<^verbatim>\<open>Series.mean().item()\<close>: \<^verbatim>\<open>nan\<close> when no entry is present.\<close>

definition series_mean :: "Series \<Rightarrow> pyfloat" where
  "series_mean s =
     (let xs = map num_of (notna (s_values s))
      in if xs = [] then NaN else Finite (sum_list xs / of_nat (length xs)))"

text \<open>\<^verbatim>\<open>Series.median().item()\<close>: the middle of the sorted values, or the mean of the
  two middle ones.\<close>

definition series_median :: "Series \<Rightarrow> pyfloat" where
  "series_median s =
     (let xs = sort (map num_of (notna (s_values s))); n = length xs
      in if n = 0 then NaN
         else if odd n then Finite (xs ! (n div 2))
         else Finite ((xs ! (n div 2 - 1) + xs ! (n div 2)) / 2))"

text \<open>
  \<^verbatim>\<open>Series.mode()\<close>: the most frequent values among the entries present, in ascending
  order; empty when no entry is present. Numbers are ordered by value, texts
  lexicographically.
\<close>

fun cell_key :: "cell \<Rightarrow> nat \<times> rat \<times> string" where
  "cell_key NA = (2, 0, [])"
| "cell_key (StrV t) = (1, 0, t)"
| "cell_key (DateV d) = (0, of_int d, [])"
| "cell_key c = (0, num_of c, [])"

definition series_mode :: "Series \<Rightarrow> cell list" where
  "series_mode s =
     (let xs = notna (s_values s);
          us = remdups xs;
          top = fold max (map (count_list xs) us) 0
      in sort_key cell_key (filter (\<lambda>u. count_list xs u = top) us))"

text \<open>
  \<^verbatim>\<open>Series.mode()[0]\<close>: the lookup of label 0 raises \<^verbatim>\<open>KeyError\<close> on an empty result.
\<close>

definition mode0 :: "Series \<Rightarrow> error + cell" where
  "mode0 s =
     (case series_mode s of
        [] \<Rightarrow> Inl (Raise KeyError [NatF 0] None)
      | m # _ \<Rightarrow> Inr m)"

subsection \<open>The type predicates of \<^verbatim>\<open>pandas.api.types\<close>\<close>

text \<open>
  \<^verbatim>\<open>is_numeric_dtype\<close>: the scalar type derives from \<^verbatim>\<open>np.number\<close> or \<^verbatim>\<open>np.bool_\<close> and is
  neither \<^verbatim>\<open>datetime64\<close> nor \<^verbatim>\<open>timedelta64\<close>. A boolean column is numeric to pandas.
\<close>

fun is_numeric_dtype :: "Series \<Rightarrow> bool" where
  "is_numeric_dtype s =
     (case s_dtype s of
        NpDtype t \<Rightarrow>
          (cls_number \<in> set (np_bases t) \<or> cls_bool \<in> set (np_bases t)) \<and>
          \<not> (cls_datetime64 \<in> set (np_bases t) \<or> cls_timedelta64 \<in> set (np_bases t))
      | CategoricalDtype _ \<Rightarrow> False)"

text \<open>
  \<^verbatim>\<open>is_string_dtype\<close> on a Series (pandas 2): an object column is a string column when
  every one of its elements is a text, a categorical column when its categories are
  texts; the numpy text types are string types.
\<close>

fun is_str_cell :: "cell \<Rightarrow> bool" where
  "is_str_cell (StrV _) = True"
| "is_str_cell _ = False"

fun is_string_dtype :: "Series \<Rightarrow> bool" where
  "is_string_dtype s =
     (case s_dtype s of
        CategoricalDtype i \<Rightarrow> i = inf_string
      | NpDtype t \<Rightarrow>
          (if t = np_object then list_all is_str_cell (s_values s)
           else t = np_str \<or> t = np_bytes))"

fun is_bool_dtype :: "Series \<Rightarrow> bool" where
  "is_bool_dtype s =
     (case s_dtype s of
        CategoricalDtype i \<Rightarrow> i = inf_boolean
      | NpDtype t \<Rightarrow> cls_bool \<in> set (np_bases t))"

fun is_datetime64_any_dtype :: "Series \<Rightarrow> bool" where
  "is_datetime64_any_dtype s =
     (case s_dtype s of
        CategoricalDtype _ \<Rightarrow> False
      | NpDtype t \<Rightarrow> cls_datetime64 \<in> set (np_bases t))"

text \<open>
  \<^verbatim>\<open>duplicated()\<close> of a frame's rows or of its column labels marks every entry that
  repeats an earlier one; a boolean mask selects the marked entries.
\<close>

fun duplicated :: "'a list \<Rightarrow> 'a list \<Rightarrow> bool list" where
  "duplicated seen [] = []"
| "duplicated seen (x # xs) = (x \<in> set seen) # duplicated (x # seen) xs"

definition mask_select :: "'a list \<Rightarrow> bool list \<Rightarrow> 'a list" where
  "mask_select xs flags = map fst (filter snd (zip xs flags))"

definition cell_at :: "Series \<Rightarrow> nat \<Rightarrow> cell" where
  "cell_at s i = (if i < length (s_values s) then s_values s ! i else NA)"

definition rows :: "DataFrame \<Rightarrow> cell list list" where
  "rows df = map (\<lambda>i. map (\<lambda>(n, s). cell_at s i) (data df)) [0..<length (index df)]"

section \<open>Descriptors of \<^verbatim>\<open>automl/schema/descriptors.py\<close>\<close>

record ColumnDescriptor =
  name :: string
  col_type :: ColumnType
  dtype :: Dtypes
  feature_type :: FeatureType
  count :: nat
  mean :: "pyfloat option"
  median :: "pyfloat option"
  mode :: "cell option"
  null_count :: nat
  unique_valus :: nat
  imputation_scheme :: "ImputationScheme option"
  imputation_value :: "pyval option"
  is_selected :: bool

record DatasetDescriptor =
  row_count :: nat
  cloumns_info :: "ColumnDescriptor list"
  duplicate_rows :: "int list"
  duplicate_columns :: "string list"

subsection \<open>The validator of the imputation fields\<close>

text \<open>
  Python's \<^verbatim>\<open>isinstance\<close> on an optional scalar: \<^verbatim>\<open>None\<close> is an instance of none of the
  types, and \<^verbatim>\<open>bool\<close> is a subclass of \<^verbatim>\<open>int\<close>.
\<close>

datatype pytype = py_int | py_float | py_str | py_bool

fun isinstance :: "pyval option \<Rightarrow> pytype list \<Rightarrow> bool" where
  "isinstance None ts = False"
| "isinstance (Some (PyInt _)) ts = (py_int \<in> set ts)"
| "isinstance (Some (PyFloat _)) ts = (py_float \<in> set ts)"
| "isinstance (Some (PyStr _)) ts = (py_str \<in> set ts)"
| "isinstance (Some (PyBool _)) ts = (py_bool \<in> set ts \<or> py_int \<in> set ts)"

definition scheme_error :: "ImputationScheme \<Rightarrow> Dtypes \<Rightarrow> error" where
  "scheme_error sch d =
     Raise ValueError
       [Lit ''imputation_scheme '', Lit (ImputationScheme_value sch),
        Lit '' is not valid for Dtypes '', Lit (Dtypes_name d)] None"

definition value_error :: "pyval option \<Rightarrow> Dtypes \<Rightarrow> error" where
  "value_error v d =
     Raise ValueError
       [Lit ''imputation_value '', ValueF v,
        Lit '' is not valid for Dtypes '', Lit (Dtypes_name d)] None"

text \<open>
  The model validator \<^verbatim>\<open>imputation_scheme\<close> of \<^verbatim>\<open>ColumnDescriptor\<close>, which runs after the
  fields are set (the field of the same name keeps the name here).
\<close>

definition imputation_scheme_validator :: "ColumnDescriptor \<Rightarrow> error + ColumnDescriptor" where
  "imputation_scheme_validator values =
     (let imp_scheme = imputation_scheme values;
          imp_value = imputation_value values
      in if dtype values \<in> set [INTERGER, FLOAT] then
           (if imp_scheme = Some MODE then Inl (scheme_error MODE (dtype values))
            else if imp_scheme = Some VALUE \<and> \<not> isinstance imp_value [py_int, py_float]
              then Inl (value_error imp_value (dtype values))
            else Inr values)
         else if dtype values = CATEGORICAL then
           (if imp_scheme = Some MEAN then Inl (scheme_error MEAN (dtype values))
            else if imp_scheme = Some MEDIAN then Inl (scheme_error MEDIAN (dtype values))
            else if imp_scheme = Some VALUE \<and> \<not> isinstance imp_value [py_str]
              then Inl (value_error imp_value (dtype values))
            else Inr values)
         else if dtype values \<in> set [BOOLEAN, DATE] then
           (if imp_scheme = Some MEAN then Inl (scheme_error MEAN (dtype values))
            else if imp_scheme = Some MEDIAN then Inl (scheme_error MEDIAN (dtype values))
            else if imp_scheme = Some VALUE \<and> \<not> isinstance imp_value [py_bool]
              then Inl (value_error imp_value (dtype values))
            else Inr values)
         else Inr values)"

text \<open>
  Constructing a \<^verbatim>\<open>ColumnDescriptor\<close> from its fields runs the validator; the fields are
  kept as they are given.
\<close>

definition ColumnDescriptor_init :: "ColumnDescriptor \<Rightarrow> error + ColumnDescriptor" where
  "ColumnDescriptor_init kwargs = imputation_scheme_validator kwargs"

subsection \<open>\<^verbatim>\<open>ColumnDescriptor.build_from_dataset\<close>\<close>

text \<open>
  The chain of type tests: the statistics, the feature type and the semantic type of a
  column, as (mean, median, mode, feature type, dtype).
\<close>

definition column_statistics ::
  "Series \<Rightarrow> error + (pyfloat option \<times> pyfloat option \<times> cell option \<times> FeatureType \<times> Dtypes)" where
  "column_statistics s =
     (if is_numeric_dtype s then
        (let mean' = series_mean s; median' = series_median s
         in case mode0 s of
              Inl e \<Rightarrow> Inl e
            | Inr mode' \<Rightarrow>
                (case from_nptype (s_dtype s) of
                   Inl e \<Rightarrow> Inl e
                 | Inr dtypes \<Rightarrow> Inr (Some mean', Some median', Some mode', Continuous, dtypes)))
      else if is_string_dtype s \<or> is_bool_dtype s then
        (case mode0 s of
           Inl e \<Rightarrow> Inl e
         | Inr mode' \<Rightarrow>
             (if is_categorical_dtype (s_dtype s) then Inr (None, None, Some mode', Ordinal, CATEGORICAL)
              else case from_nptype (s_dtype s) of
                     Inl e \<Rightarrow> Inl e
                   | Inr dtypes \<Rightarrow> Inr (None, None, Some mode', Ordinal, dtypes)))
      else if is_datetime64_any_dtype s then
        (case from_nptype (s_dtype s) of
           Inl e \<Rightarrow> Inl e
         | Inr dtypes \<Rightarrow> Inr (None, None, None, Nominal, dtypes))
      else Inl (Raise ValueError [Lit ''Unsupported dtype '', DtypeF (s_dtype s)] None))"

text \<open>
  The test of a constant column compares the column's role with \<^verbatim>\<open>FeatureType.TARGET\<close>,
  an attribute looked up on the class \<^verbatim>\<open>FeatureType\<close>; both enumerations derive from \<^verbatim>\<open>str\<close>,
  so two members are equal when their string values are.
\<close>

definition constant_check :: "string \<Rightarrow> ColumnType \<Rightarrow> FeatureType \<Rightarrow> nat \<Rightarrow> error + FeatureType" where
  "constant_check colname column_type feature_type' unique_valus' =
     (if unique_valus' = 1 then
        (case FeatureType_member ''TARGET'' of
           None \<Rightarrow> Inl (Raise AttributeError [Lit ''TARGET''] None)
         | Some t \<Rightarrow>
             if ColumnType_value column_type = FeatureType_value t
             then Inl (Raise ValueError
                    [Lit ''Target column '', Lit colname, Lit '' has only one unique value''] None)
             else Inr constant)
      else Inr feature_type')"

text \<open>
  On a name that several columns carry, \<^verbatim>\<open>dataset[colname].count()\<close> is a Series of one
  count per such column, and \<^verbatim>\<open>.item()\<close> raises on a Series that has not exactly one
  element.
\<close>

definition ColumnDescriptor_build_from_dataset ::
  "DataFrame \<Rightarrow> string \<Rightarrow> string list \<Rightarrow> error + ColumnDescriptor" where
  "ColumnDescriptor_build_from_dataset dataset colname target_columns =
     (case getitem dataset colname of
        Inl e \<Rightarrow> Inl e
      | Inr (SubFrame ss) \<Rightarrow>
          Inl (Raise ValueError [Lit ''can only convert an array of size 1 to a Python scalar''] None)
      | Inr (OneSeries s) \<Rightarrow>
          (let count' = series_count s
           in case column_statistics s of
                Inl e \<Rightarrow> Inl e
              | Inr (mean', median', mode', feature_type', dtypes) \<Rightarrow>
                  (let column_type = (if colname \<in> set target_columns then TARGET else FEATURES);
                       null_count' = isna_sum s;
                       unique_valus' = nunique s
                   in case constant_check colname column_type feature_type' unique_valus' of
                        Inl e \<Rightarrow> Inl e
                      | Inr feature_type'' \<Rightarrow>
                          ColumnDescriptor_init
                            \<lparr>name = colname, col_type = column_type, dtype = dtypes,
                             feature_type = feature_type'', count = count', mean = mean',
                             median = median', mode = mode', null_count = null_count',
                             unique_valus = unique_valus', imputation_scheme = None,
                             imputation_value = None, is_selected = True\<rparr>)))"

subsection \<open>\<^verbatim>\<open>DatasetDescriptor.build_from_dataset\<close>\<close>

text \<open>The loop over the columns, appending one descriptor per column.\<close>

fun build_columns ::
  "DataFrame \<Rightarrow> string list \<Rightarrow> ColumnDescriptor list \<Rightarrow> string list \<Rightarrow> error + ColumnDescriptor list" where
  "build_columns dataset target_columns cloumns_info' [] = Inr cloumns_info'"
| "build_columns dataset target_columns cloumns_info' (column # rest) =
     (case ColumnDescriptor_build_from_dataset dataset column target_columns of
        Inl e \<Rightarrow> Inl e
      | Inr coldesc \<Rightarrow> build_columns dataset target_columns (cloumns_info' @ [coldesc]) rest)"

definition DatasetDescriptor_build_from_dataset ::
  "DataFrame \<Rightarrow> string list \<Rightarrow> error + DatasetDescriptor" where
  "DatasetDescriptor_build_from_dataset dataset target_columns =
     (let (row_count', col_count') = shape dataset;
          duplicate_rows' = mask_select (index dataset) (duplicated [] (rows dataset));
          duplicate_columns' = mask_select (columns dataset) (duplicated [] (columns dataset))
      in case build_columns dataset target_columns [] (columns dataset) of
           Inl e \<Rightarrow> Inl e
         | Inr cloumns_info' \<Rightarrow>
             Inr \<lparr>row_count = row_count', cloumns_info = cloumns_info',
                  duplicate_rows = duplicate_rows', duplicate_columns = duplicate_columns'\<rparr>)"

section \<open>Shared helpers of \<^verbatim>\<open>automl/common.py\<close>\<close>

text \<open>
  What a transformer can be handed as \<open>X\<close>: a frame, a two-dimensional numpy array
  (its shape and its entries, row by row), or an object that is neither and has no
  attribute \<^verbatim>\<open>shape\<close> or \<^verbatim>\<open>dtypes\<close> (\<^verbatim>\<open>None\<close>, a text, a number).
\<close>

datatype pyobj = Frame DataFrame | NdArray nat nat "rat list" | PyOther

text \<open>The \<^verbatim>\<open>columns\<close> parameter of a transformer: one name or a list of names.\<close>

datatype colspec = Str string | StrList "string list"

fun as_list :: "colspec \<Rightarrow> string list" where
  "as_list (Str val) = [val]"
| "as_list (StrList val) = val"

text \<open>Python's truth value of the parameter: an empty text and an empty list are false.\<close>

fun truthy :: "colspec \<Rightarrow> bool" where
  "truthy (Str val) = (val \<noteq> [])"
| "truthy (StrList val) = (val \<noteq> [])"

text \<open>
  \<^verbatim>\<open>check_X_for_type\<close> returns nothing; the model hands back the frame that \<open>X\<close> is
  known to be once the check has passed.
\<close>

fun check_X_for_type :: "pyobj \<Rightarrow> error + DataFrame" where
  "check_X_for_type (Frame df) =
     (if empty df then Inl (Raise ValueError [Lit ''Provided variable X is an empty DataFrame''] None)
      else Inr df)"
| "check_X_for_type X =
     Inl (Raise TypeError [Lit ''Provided variable X is not of type pandas.DataFrame''] None)"

definition check_column_length :: "string list \<Rightarrow> error + unit" where
  "check_column_length cols =
     (if length cols = 0
      then Inl (Raise ValueError
             [Lit ''Expected columns to be at least of length 1, found length of 0 instead''] None)
      else Inr ())"

section \<open>Primitives of pandas and scikit-learn used by the transformers\<close>

text \<open>
  \<^verbatim>\<open>check_is_fitted(self, attributes)\<close>: every attribute named must exist on the instance.
\<close>

definition check_is_fitted :: "string \<Rightarrow> bool list \<Rightarrow> error + unit" where
  "check_is_fitted estimator has_attrs =
     (if list_all (\<lambda>b. b) has_attrs then Inr ()
      else Inl (Raise NotFittedError
             [Lit ''This '', Lit estimator,
              Lit '' instance is not fitted yet. Call 'fit' with appropriate arguments before using this estimator.'']
             None))"

text \<open>Reading an attribute that was never set on the instance.\<close>

definition getattr :: "string \<Rightarrow> string \<Rightarrow> 'a option \<Rightarrow> error + 'a" where
  "getattr estimator attr v =
     (case v of
        None \<Rightarrow> Inl (Raise AttributeError
                  [Lit estimator, Lit '' object has no attribute '', Lit attr] None)
      | Some x \<Rightarrow> Inr x)"

text \<open>\<^verbatim>\<open>X.drop(columns=cols)\<close>: every label must exist; all columns so named go.\<close>

definition drop_columns :: "DataFrame \<Rightarrow> string list \<Rightarrow> error + DataFrame" where
  "drop_columns df cols =
     (let missing = filter (\<lambda>c. c \<notin> set (columns df)) cols
      in if missing \<noteq> [] then Inl (Raise KeyError [NamesF missing, Lit '' not found in axis''] None)
         else Inr (df\<lparr>data := filter (\<lambda>(n, s). n \<notin> set cols) (data df)\<rparr>))"

text \<open>\<^verbatim>\<open>X[cols]\<close> with a list of names: the columns so named, in the order of the list.\<close>

definition getitem_list :: "DataFrame \<Rightarrow> string list \<Rightarrow> error + DataFrame" where
  "getitem_list df cols =
     (let missing = filter (\<lambda>c. c \<notin> set (columns df)) cols
      in if missing \<noteq> [] then Inl (Raise KeyError [NamesF missing, Lit '' not in index''] None)
         else Inr (df\<lparr>data := concat (map (\<lambda>c. filter (\<lambda>(n, s). n = c) (data df)) cols)\<rparr>))"

text \<open>\<^verbatim>\<open>X.dtypes\<close>: the storage type of every column, labelled by the column's name.\<close>

definition dtypes :: "DataFrame \<Rightarrow> (string \<times> dtype) list" where
  "dtypes df = map (\<lambda>(n, s). (n, s_dtype s)) (data df)"

text \<open>
  A type selector of \<^verbatim>\<open>select_dtypes\<close>: a class of numpy's hierarchy (\<^verbatim>\<open>"number"\<close>,
  \<^verbatim>\<open>np.integer\<close>), one concrete numpy type, or \<^verbatim>\<open>"category"\<close>.
\<close>

datatype selector = SelClass npclass | SelType nptype | SelCategory

fun dtype_predicate :: "dtype \<Rightarrow> selector list \<Rightarrow> bool" where
  "dtype_predicate d sels =
     list_ex (\<lambda>sel. case sel of
                 SelClass c \<Rightarrow> issubdtype d c
               | SelType t \<Rightarrow> d = NpDtype t
               | SelCategory \<Rightarrow> is_categorical_dtype d) sels"

text \<open>
  \<^verbatim>\<open>X.select_dtypes(include, exclude)\<close>; a selector that was not given (\<^verbatim>\<open>None\<close>) is the
  empty list.
\<close>

definition select_dtypes :: "DataFrame \<Rightarrow> selector list \<Rightarrow> selector list \<Rightarrow> error + DataFrame" where
  "select_dtypes df include exclude =
     (if include = [] \<and> exclude = []
      then Inl (Raise ValueError [Lit ''at least one of include or exclude must be nonempty''] None)
      else if list_ex (\<lambda>sel. sel \<in> set exclude) include
      then Inl (Raise ValueError [Lit ''include and exclude overlap''] None)
      else Inr (df\<lparr>data :=
             filter (\<lambda>(n, s). (include = [] \<or> dtype_predicate (s_dtype s) include) \<and>
                               \<not> dtype_predicate (s_dtype s) exclude) (data df)\<rparr>))"

section \<open>The transformers of \<^verbatim>\<open>automl/transformer.py\<close>\<close>

text \<open>
  An instance is a record of its constructor parameters and of the attributes that
  \<^verbatim>\<open>fit\<close> sets; an attribute not yet set is \<open>None\<close>. The attributes \<^verbatim>\<open>columns_\<close>,
  \<^verbatim>\<open>feature_names_\<close>, \<^verbatim>\<open>X_dtypes_\<close>, \<^verbatim>\<open>n_samples_\<close> and \<^verbatim>\<open>n_features_in_\<close> are the fields ending
  in \<open>_fit\<close>. \<^verbatim>\<open>fit\<close> returns the exception it raised, if any, and the instance as the call
  left it: what was assigned before a raise stays assigned.
\<close>

subsection \<open>\<^verbatim>\<open>ColumnDropper\<close>\<close>

record ColumnDropper =
  cd_columns :: colspec
  cd_columns_fit :: "string list option"
  cd_feature_names_fit :: "string list option"

text \<open>
  \<^verbatim>\<open>_check_column_names\<close>: the names asked for that the frame does not have (a Python
  set, listed here in the order asked for).
\<close>

definition check_column_names :: "string list \<Rightarrow> DataFrame \<Rightarrow> error + unit" where
  "check_column_names cols X =
     (let non_existent_columns = remdups (filter (\<lambda>c. c \<notin> set (columns X)) cols)
      in if length non_existent_columns > 0
         then Inl (Raise KeyError [NamesF non_existent_columns, Lit '' column(s) not in DataFrame''] None)
         else Inr ())"

definition ColumnDropper_check_column_length :: "string list \<Rightarrow> string list \<Rightarrow> error + unit" where
  "ColumnDropper_check_column_length feature_names cols =
     (if length feature_names = 0
      then Inl (Raise ValueError
             [Lit ''Dropping '', NamesF cols, Lit '' would result in an empty output DataFrame''] None)
      else Inr ())"

definition ColumnDropper_fit :: "ColumnDropper \<Rightarrow> pyobj \<Rightarrow> error option \<times> ColumnDropper" where
  "ColumnDropper_fit self X =
     (let cols = as_list (cd_columns self);
          self1 = self\<lparr>cd_columns_fit := Some cols\<rparr>
      in case check_X_for_type X of
           Inl e \<Rightarrow> (Some e, self1)
         | Inr df \<Rightarrow>
             (case check_column_names cols df of
                Inl e \<Rightarrow> (Some e, self1)
              | Inr _ \<Rightarrow>
                  (case drop_columns df cols of
                     Inl e \<Rightarrow> (Some e, self1)
                   | Inr kept \<Rightarrow>
                       (let self2 = self1\<lparr>cd_feature_names_fit := Some (columns kept)\<rparr>
                        in case ColumnDropper_check_column_length (columns kept) cols of
                             Inl e \<Rightarrow> (Some e, self2)
                           | Inr _ \<Rightarrow> (None, self2)))))"

definition ColumnDropper_transform :: "ColumnDropper \<Rightarrow> pyobj \<Rightarrow> error + pyobj" where
  "ColumnDropper_transform self X =
     (case check_is_fitted ''ColumnDropper'' [cd_feature_names_fit self \<noteq> None] of
        Inl e \<Rightarrow> Inl e
      | Inr _ \<Rightarrow>
          (case check_X_for_type X of
             Inl e \<Rightarrow> Inl e
           | Inr df \<Rightarrow>
               (case getattr ''ColumnDropper'' ''columns_'' (cd_columns_fit self) of
                  Inl e \<Rightarrow> Inl e
                | Inr cols \<Rightarrow>
                    if cols \<noteq> [] then
                      (case drop_columns df cols of
                         Inl e \<Rightarrow> Inl e
                       | Inr kept \<Rightarrow> Inr (Frame kept))
                    else Inr X)))"

subsection \<open>\<^verbatim>\<open>PandasTypeSelector\<close>\<close>

record PandasTypeSelector =
  pts_include :: "selector list"
  pts_exclude :: "selector list"
  pts_X_dtypes_fit :: "(string \<times> dtype) list option"
  pts_feature_names_fit :: "string list option"

definition PandasTypeSelector_fit ::
  "PandasTypeSelector \<Rightarrow> pyobj \<Rightarrow> error option \<times> PandasTypeSelector" where
  "PandasTypeSelector_fit self X =
     (case check_X_for_type X of
        Inl e \<Rightarrow> (Some e, self)
      | Inr df \<Rightarrow>
          (let self1 = self\<lparr>pts_X_dtypes_fit := Some (dtypes df)\<rparr>
           in case select_dtypes df (pts_include self) (pts_exclude self) of
                Inl e \<Rightarrow> (Some e, self1)
              | Inr selected \<Rightarrow>
                  (let self2 = self1\<lparr>pts_feature_names_fit := Some (columns selected)\<rparr>
                   in if length (columns selected) = 0
                      then (Some (Raise ValueError
                                    [Lit ''Provided type(s) results in empty dataframe''] None), self2)
                      else (None, self2))))"

text \<open>
  The comparison \<^verbatim>\<open>(self.X_dtypes_ != X.dtypes).any()\<close> inside the \<^verbatim>\<open>try\<close> block.
  An object that is no frame has no \<^verbatim>\<open>dtypes\<close>. Comparing two Series whose labels are
  not the same, in the same order, raises the engine's own \<^verbatim>\<open>ValueError\<close>; with the
  same labels the comparison is by position, and a difference raises the
  \<^verbatim>\<open>ValueError\<close> that lists both sets of types.
\<close>

definition dtypes_differ :: "(string \<times> dtype) list \<Rightarrow> pyobj \<Rightarrow> error + unit" where
  "dtypes_differ X_dtypes X =
     (case X of
        Frame df \<Rightarrow>
          if map fst X_dtypes \<noteq> map fst (dtypes df)
          then Inl (Raise ValueError [Lit ''Can only compare identically-labeled Series objects''] None)
          else if list_ex (\<lambda>(a, b). snd a \<noteq> snd b) (zip X_dtypes (dtypes df))
          then Inl (Raise ValueError
                 [Lit (''Column dtypes were not equal during fit and transform. Fit types: '' @ [CHR 0x0A]),
                  DtypesF X_dtypes, Lit ([CHR 0x0A] @ ''transform: '' @ [CHR 0x0A]),
                  DtypesF (dtypes df)] None)
          else Inr ()
      | _ \<Rightarrow> Inl (Raise AttributeError [Lit ''object has no attribute '', Lit ''dtypes''] None))"

text \<open>
  \<^verbatim>\<open>except ValueError as e: raise ValueError(...) from e\<close>: a \<^verbatim>\<open>ValueError\<close> of the block
  is replaced by a new one that has it as cause; any other exception passes.
\<close>

definition reraise_ValueError :: "error + unit \<Rightarrow> error + unit" where
  "reraise_ValueError r =
     (case r of
        Inl e \<Rightarrow>
          if exn_of e = ValueError
          then Inl (Raise ValueError [Lit ''Columns were not equal during fit and transform''] (Some e))
          else Inl e
      | Inr u \<Rightarrow> Inr u)"

definition PandasTypeSelector_transform :: "PandasTypeSelector \<Rightarrow> pyobj \<Rightarrow> error + pyobj" where
  "PandasTypeSelector_transform self X =
     (case check_is_fitted ''PandasTypeSelector''
             [pts_X_dtypes_fit self \<noteq> None, pts_feature_names_fit self \<noteq> None] of
        Inl e \<Rightarrow> Inl e
      | Inr _ \<Rightarrow>
          (case getattr ''PandasTypeSelector'' ''X_dtypes_'' (pts_X_dtypes_fit self) of
             Inl e \<Rightarrow> Inl e
           | Inr X_dtypes \<Rightarrow>
               (case reraise_ValueError (dtypes_differ X_dtypes X) of
                  Inl e \<Rightarrow> Inl e
                | Inr _ \<Rightarrow>
                    (case check_X_for_type X of
                       Inl e \<Rightarrow> Inl e
                     | Inr df \<Rightarrow>
                         (case select_dtypes df (pts_include self) (pts_exclude self) of
                            Inl e \<Rightarrow> Inl e
                          | Inr transformed_df \<Rightarrow> Inr (Frame transformed_df))))))"

subsection \<open>\<^verbatim>\<open>ColumnSelector\<close>\<close>

record ColumnSelector =
  cs_columns :: colspec
  cs_columns_fit :: "string list option"

definition ColumnSelector_fit :: "ColumnSelector \<Rightarrow> pyobj \<Rightarrow> error option \<times> ColumnSelector" where
  "ColumnSelector_fit self X =
     (let cols = as_list (cs_columns self);
          self1 = self\<lparr>cs_columns_fit := Some cols\<rparr>
      in case check_column_length cols of
           Inl e \<Rightarrow> (Some e, self1)
         | Inr _ \<Rightarrow>
             (case check_X_for_type X of
                Inl e \<Rightarrow> (Some e, self1)
              | Inr df \<Rightarrow>
                  (case check_column_names cols df of
                     Inl e \<Rightarrow> (Some e, self1)
                   | Inr _ \<Rightarrow> (None, self1))))"

definition ColumnSelector_transform :: "ColumnSelector \<Rightarrow> pyobj \<Rightarrow> error + pyobj" where
  "ColumnSelector_transform self X =
     (case check_X_for_type X of
        Inl e \<Rightarrow> Inl e
      | Inr df \<Rightarrow>
          if truthy (cs_columns self) then
            (case getattr ''ColumnSelector'' ''columns_'' (cs_columns_fit self) of
               Inl e \<Rightarrow> Inl e
             | Inr cols \<Rightarrow>
                 (case getitem_list df cols of
                    Inl e \<Rightarrow> Inl e
                  | Inr selected \<Rightarrow> Inr (Frame selected)))
          else Inr X)"

subsection \<open>\<^verbatim>\<open>IdentityTransformer\<close>\<close>

record IdentityTransformer =
  it_check_X :: bool
  it_n_samples_fit :: "nat option"
  it_n_features_in_fit :: "nat option"

text \<open>\<^verbatim>\<open>X.shape\<close> of what a transformer is handed.\<close>

fun shape_of :: "pyobj \<Rightarrow> error + nat \<times> nat" where
  "shape_of (Frame df) = Inr (shape df)"
| "shape_of (NdArray n m xs) = Inr (n, m)"
| "shape_of PyOther = Inl (Raise AttributeError [Lit ''object has no attribute '', Lit ''shape''] None)"

text \<open>
  \<^verbatim>\<open>check_array\<close> is scikit-learn's validation of an array; it is a parameter of the
  model, called only when the flag \<^verbatim>\<open>check_X\<close> is set.
\<close>

definition IdentityTransformer_fit ::
  "(pyobj \<Rightarrow> error + pyobj) \<Rightarrow> IdentityTransformer \<Rightarrow> pyobj \<Rightarrow> error option \<times> IdentityTransformer" where
  "IdentityTransformer_fit check_array self X =
     (case (if it_check_X self then check_array X else Inr X) of
        Inl e \<Rightarrow> (Some e, self)
      | Inr X' \<Rightarrow>
          (case shape_of X' of
             Inl e \<Rightarrow> (Some e, self)
           | Inr (n_samples, n_features) \<Rightarrow>
               (None, self\<lparr>it_n_samples_fit := Some n_samples,
                            it_n_features_in_fit := Some n_features\<rparr>)))"

definition IdentityTransformer_transform ::
  "(pyobj \<Rightarrow> error + pyobj) \<Rightarrow> IdentityTransformer \<Rightarrow> pyobj \<Rightarrow> error + pyobj" where
  "IdentityTransformer_transform check_array self X =
     (case (if it_check_X self then check_array X else Inr X) of
        Inl e \<Rightarrow> Inl e
      | Inr X' \<Rightarrow>
          (case check_is_fitted ''IdentityTransformer'' [it_n_features_in_fit self \<noteq> None] of
             Inl e \<Rightarrow> Inl e
           | Inr _ \<Rightarrow>
               (case shape_of X' of
                  Inl e \<Rightarrow> Inl e
                | Inr (n_samples, n_features) \<Rightarrow>
                    (case getattr ''IdentityTransformer'' ''n_features_in_'' (it_n_features_in_fit self) of
                       Inl e \<Rightarrow> Inl e
                     | Inr n_features_in \<Rightarrow>
                         if n_features \<noteq> n_features_in
                         then Inl (Raise ValueError
                                [Lit ''Wrong shape is passed to transform. Trained on '',
                                 NatF n_features_in, Lit '' cols got '', NatF n_features] None)
                         else Inr X'))))"

section \<open>The type-inference policy as the specification words it\<close>

text \<open>
  The specification gives type inference as an ordered list of rules, the first match
  deciding, and a failure that names the type when no rule matches. \<open>spec_policy\<close> is
  that list, \<open>first_match\<close> the way it is read.
\<close>

definition spec_policy :: "((dtype \<Rightarrow> bool) \<times> Dtypes) list" where
  "spec_policy =
     [(is_categorical_dtype, CATEGORICAL),
      (\<lambda>d. issubdtype d cls_integer, INTERGER),
      (\<lambda>d. issubdtype d cls_floating, FLOAT),
      (\<lambda>d. issubdtype d cls_bool, BOOLEAN),
      (\<lambda>d. issubdtype d cls_datetime64, DATE),
      (\<lambda>d. issubdtype d cls_object \<or> issubdtype d cls_str, CATEGORICAL)]"

definition first_match :: "((dtype \<Rightarrow> bool) \<times> Dtypes) list \<Rightarrow> dtype \<Rightarrow> error + Dtypes" where
  "first_match rules d =
     (case find (\<lambda>(p, r). p d) rules of
        Some (p, r) \<Rightarrow> Inr r
      | None \<Rightarrow> Inl (Raise ValueError [Lit ''Unsupported dtype: '', DtypeF d] None))"

section \<open>Notions the statements use\<close>

fun is_frame :: "pyobj \<Rightarrow> bool" where
  "is_frame (Frame _) = True"
| "is_frame _ = False"

text \<open>The two failures of \<^verbatim>\<open>check_X_for_type\<close>, under the names the specification gives them.\<close>

definition WrongInputType :: error where
  "WrongInputType = Raise TypeError [Lit ''Provided variable X is not of type pandas.DataFrame''] None"

definition EmptyInput :: error where
  "EmptyInput = Raise ValueError [Lit ''Provided variable X is an empty DataFrame''] None"

text \<open>
  The failure the specification asks for on an input: \<open>WrongInputType\<close> when it is no
  frame, \<open>EmptyInput\<close> when it is a frame of zero rows.
\<close>

fun spec_input_error :: "pyobj \<Rightarrow> error option" where
  "spec_input_error (Frame df) = (if length (index df) = 0 then Some EmptyInput else None)"
| "spec_input_error X = Some WrongInputType"


text \<open>
  One check of scikit-learn's \<^verbatim>\<open>check_array\<close>, the minimum of one sample, where a
  concrete validation is needed.
\<close>

definition check_min_samples :: "pyobj \<Rightarrow> error + pyobj" where
  "check_min_samples X =
     (case shape_of X of
        Inl e \<Rightarrow> Inl e
      | Inr (n, m) \<Rightarrow>
          if n = 0 then Inl (Raise ValueError [Lit ''Found array with 0 sample(s)''] None)
          else Inr X)"

text \<open>An exception followed by its causes, and whether one of them lists two sets of types.\<close>

fun chain :: "error \<Rightarrow> error list" where
  "chain (Raise c m None) = [Raise c m None]"
| "chain (Raise c m (Some e)) = Raise c m (Some e) # chain e"

definition carries_type_sets ::
  "(string \<times> dtype) list \<Rightarrow> (string \<times> dtype) list \<Rightarrow> error \<Rightarrow> bool" where
  "carries_type_sets fit_types transform_types e =
     list_ex (\<lambda>x. DtypesF fit_types \<in> set (message x) \<and> DtypesF transform_types \<in> set (message x))
       (chain e)"

section \<open>Concrete frames and instances\<close>

definition frame_3col :: DataFrame where
  "frame_3col =
     \<lparr>index = [0, 1, 2],
      data =
        [(''id'', \<lparr>s_dtype = NpDtype np_int64, s_values = [IntV 1, IntV 2, IntV 3]\<rparr>),
         (''val'', \<lparr>s_dtype = NpDtype np_float64, s_values = [FloatV 1, NA, FloatV (5 / 2)]\<rparr>),
         (''cat'', \<lparr>s_dtype = NpDtype np_object, s_values = [StrV ''b'', StrV ''a'', StrV ''b'']\<rparr>)]\<rparr>"

definition frame_const :: DataFrame where
  "frame_const =
     \<lparr>index = [0, 1, 2],
      data = [(''c'', \<lparr>s_dtype = NpDtype np_int64, s_values = [IntV 5, IntV 5, IntV 5]\<rparr>)]\<rparr>"

definition frame_bool :: DataFrame where
  "frame_bool =
     \<lparr>index = [0, 1, 2],
      data = [(''b'', \<lparr>s_dtype = NpDtype np_bool, s_values = [BoolV True, BoolV False, BoolV True]\<rparr>)]\<rparr>"

definition frame_xx :: DataFrame where
  "frame_xx =
     \<lparr>index = [0, 1],
      data = [(''x'', \<lparr>s_dtype = NpDtype np_int64, s_values = [IntV 1, IntV 2]\<rparr>),
              (''x'', \<lparr>s_dtype = NpDtype np_int64, s_values = [IntV 3, IntV 4]\<rparr>)]\<rparr>"

definition descriptor_mode_on_integer :: ColumnDescriptor where
  "descriptor_mode_on_integer =
     \<lparr>name = ''id'', col_type = FEATURES, dtype = INTERGER, feature_type = Continuous,
      count = 3, mean = Some (Finite 2), median = Some (Finite 2), mode = Some (IntV 1),
      null_count = 0, unique_valus = 3, imputation_scheme = Some MODE,
      imputation_value = None, is_selected = True\<rparr>"

definition descriptor_number_on_categorical :: ColumnDescriptor where
  "descriptor_number_on_categorical =
     \<lparr>name = ''cat'', col_type = FEATURES, dtype = CATEGORICAL, feature_type = Ordinal,
      count = 3, mean = None, median = None, mode = Some (StrV ''b''),
      null_count = 0, unique_valus = 2, imputation_scheme = Some VALUE,
      imputation_value = Some (PyInt 7), is_selected = True\<rparr>"

definition dropper_of_nothing :: ColumnDropper where
  "dropper_of_nothing = \<lparr>cd_columns = StrList [], cd_columns_fit = None, cd_feature_names_fit = None\<rparr>"

definition selector_of_c :: ColumnSelector where
  "selector_of_c = \<lparr>cs_columns = StrList [''c''], cs_columns_fit = None\<rparr>"

definition selector_of_nothing :: ColumnSelector where
  "selector_of_nothing = \<lparr>cs_columns = StrList [], cs_columns_fit = None\<rparr>"

definition dropper_fitted :: ColumnDropper where
  "dropper_fitted =
     \<lparr>cd_columns = StrList [], cd_columns_fit = Some [], cd_feature_names_fit = Some [''c'']\<rparr>"

definition identity_unchecked :: IdentityTransformer where
  "identity_unchecked = \<lparr>it_check_X = False, it_n_samples_fit = None, it_n_features_in_fit = None\<rparr>"

definition identity_fitted :: IdentityTransformer where
  "identity_fitted = \<lparr>it_check_X = False, it_n_samples_fit = Some 2, it_n_features_in_fit = Some 2\<rparr>"

definition identity_checked :: IdentityTransformer where
  "identity_checked = \<lparr>it_check_X = True, it_n_samples_fit = None, it_n_features_in_fit = None\<rparr>"


definition frame_no_rows :: DataFrame where
  "frame_no_rows = \<lparr>index = [], data = [(''a'', \<lparr>s_dtype = NpDtype np_int64, s_values = []\<rparr>)]\<rparr>"

definition frame_a_int :: DataFrame where
  "frame_a_int =
     \<lparr>index = [0, 1],
      data = [(''a'', \<lparr>s_dtype = NpDtype np_int64, s_values = [IntV 1, IntV 2]\<rparr>)]\<rparr>"

definition frame_a_float :: DataFrame where
  "frame_a_float =
     \<lparr>index = [0, 1],
      data = [(''a'', \<lparr>s_dtype = NpDtype np_float64, s_values = [FloatV 1, FloatV 2]\<rparr>)]\<rparr>"

definition frame_a_float_b :: DataFrame where
  "frame_a_float_b =
     \<lparr>index = [0, 1],
      data = [(''a'', \<lparr>s_dtype = NpDtype np_float64, s_values = [FloatV 1, FloatV 2]\<rparr>),
              (''b'', \<lparr>s_dtype = NpDtype np_int64, s_values = [IntV 1, IntV 2]\<rparr>)]\<rparr>"

definition number_selector :: PandasTypeSelector where
  "number_selector =
     \<lparr>pts_include = [SelClass cls_number], pts_exclude = [],
      pts_X_dtypes_fit = None, pts_feature_names_fit = None\<rparr>"

definition number_selector_fitted :: PandasTypeSelector where
  "number_selector_fitted = snd (PandasTypeSelector_fit number_selector (Frame frame_a_int))"

section \<open>Type inference\<close>

lemma from_nptype_table:
  "from_nptype (CategoricalDtype i) = Inr CATEGORICAL"
  "t \<in> {np_int8, np_int16, np_int32, np_int64, np_uint8, np_uint16, np_uint32, np_uint64,
         np_timedelta64} \<Longrightarrow> from_nptype (NpDtype t) = Inr INTERGER"
  "t \<in> {np_float16, np_float32, np_float64} \<Longrightarrow> from_nptype (NpDtype t) = Inr FLOAT"
  "from_nptype (NpDtype np_bool) = Inr BOOLEAN"
  "from_nptype (NpDtype np_datetime64) = Inr DATE"
  "t \<in> {np_object, np_str} \<Longrightarrow> from_nptype (NpDtype t) = Inr CATEGORICAL"
  "t \<in> {np_complex64, np_complex128, np_bytes, np_void} \<Longrightarrow>
     from_nptype (NpDtype t) =
       Inl (Raise ValueError [Lit ''Unsupported dtype: '', DtypeF (NpDtype t)] None)"
  by (auto simp: from_nptype_def)

text \<open>
  Claim C5. For every storage type, \<^verbatim>\<open>Dtypes.from_nptype\<close> returns the value of the first
  rule of the policy that matches (categorical, integer, floating, boolean, datetime,
  object or string, in this order), and when no rule matches it fails with a
  \<^verbatim>\<open>ValueError\<close> whose message names the type.
\<close>

theorem from_nptype_first_match: "from_nptype d = first_match spec_policy d"
  by (simp add: from_nptype_def first_match_def spec_policy_def)

section \<open>The imputation fields\<close>

lemma validator_Inr: "imputation_scheme_validator v = Inr w \<Longrightarrow> w = v"
  by (auto simp: imputation_scheme_validator_def Let_def split: if_splits)


text \<open>
  Claim C8. Constructing a \<^verbatim>\<open>ColumnDescriptor\<close> fails with a \<^verbatim>\<open>ValueError\<close> when the scheme
  is MODE on an INTEGER or FLOAT column, when it is MEAN or MEDIAN on a CATEGORICAL,
  BOOLEAN or DATE column, and when the scheme is VALUE and the value is not of the type
  the column needs: a number for INTEGER and FLOAT, a text for CATEGORICAL, a boolean
  for BOOLEAN and DATE.
\<close>

theorem imputation_config_rejected:
  "(dtype v \<in> {INTERGER, FLOAT} \<and> imputation_scheme v = Some MODE
      \<longrightarrow> ColumnDescriptor_init v = Inl (scheme_error MODE (dtype v))) \<and>
   (dtype v \<in> {CATEGORICAL, BOOLEAN, DATE} \<and> imputation_scheme v = Some MEAN
      \<longrightarrow> ColumnDescriptor_init v = Inl (scheme_error MEAN (dtype v))) \<and>
   (dtype v \<in> {CATEGORICAL, BOOLEAN, DATE} \<and> imputation_scheme v = Some MEDIAN
      \<longrightarrow> ColumnDescriptor_init v = Inl (scheme_error MEDIAN (dtype v))) \<and>
   (dtype v \<in> {INTERGER, FLOAT} \<and> imputation_scheme v = Some VALUE \<and>
      \<not> isinstance (imputation_value v) [py_int, py_float]
      \<longrightarrow> ColumnDescriptor_init v = Inl (value_error (imputation_value v) (dtype v))) \<and>
   (dtype v = CATEGORICAL \<and> imputation_scheme v = Some VALUE \<and>
      \<not> isinstance (imputation_value v) [py_str]
      \<longrightarrow> ColumnDescriptor_init v = Inl (value_error (imputation_value v) (dtype v))) \<and>
   (dtype v \<in> {BOOLEAN, DATE} \<and> imputation_scheme v = Some VALUE \<and>
      \<not> isinstance (imputation_value v) [py_bool]
      \<longrightarrow> ColumnDescriptor_init v = Inl (value_error (imputation_value v) (dtype v))) \<and>
   exn_of (scheme_error sch d) = ValueError \<and> exn_of (value_error x d) = ValueError"
  by (auto simp: ColumnDescriptor_init_def imputation_scheme_validator_def Let_def
      scheme_error_def value_error_def)

theorem imputation_config_rejected_witness:
  "dtype descriptor_mode_on_integer = INTERGER \<and>
   imputation_scheme descriptor_mode_on_integer = Some MODE \<and>
   ColumnDescriptor_init descriptor_mode_on_integer = Inl (scheme_error MODE INTERGER) \<and>
   dtype descriptor_number_on_categorical = CATEGORICAL \<and>
   imputation_scheme descriptor_number_on_categorical = Some VALUE \<and>
   \<not> isinstance (imputation_value descriptor_number_on_categorical) [py_str] \<and>
   ColumnDescriptor_init descriptor_number_on_categorical =
     Inl (value_error (Some (PyInt 7)) CATEGORICAL)"
  using imputation_config_rejected [of descriptor_mode_on_integer]
    imputation_config_rejected [of descriptor_number_on_categorical]
  by (simp add: descriptor_mode_on_integer_def descriptor_number_on_categorical_def)

section \<open>The descriptors of a dataset\<close>



lemma frame_3col_builds:
  "DatasetDescriptor_build_from_dataset frame_3col [''val''] =
     Inr \<lparr>row_count = 3,
        cloumns_info =
          [\<lparr>name = ''id'', col_type = FEATURES, dtype = INTERGER,
              feature_type = Continuous, count = 3, mean = Some (Finite 2),
              median = Some (Finite 2), mode = Some (IntV 1),
              null_count = 0, unique_valus = 3, imputation_scheme = None,
              imputation_value = None, is_selected = True\<rparr>,
           \<lparr>name = ''val'', col_type = TARGET, dtype = FLOAT,
              feature_type = Continuous, count = 2,
              mean = Some (Finite (7 / 4)), median = Some (Finite (7 / 4)),
              mode = Some (FloatV 1), null_count = 1, unique_valus = 2,
              imputation_scheme = None, imputation_value = None,
              is_selected = True\<rparr>,
           \<lparr>name = ''cat'', col_type = FEATURES, dtype = CATEGORICAL,
              feature_type = Ordinal, count = 3, mean = None, median = None,
              mode = Some (StrV ''b''), null_count = 0, unique_valus = 2,
              imputation_scheme = None, imputation_value = None,
              is_selected = True\<rparr>],
        duplicate_rows = [], duplicate_columns = []\<rparr>"
  by code_simp















section \<open>Columns on which the builder departs from its description\<close>

text \<open>
  Claim C1. A column with exactly one value should be profiled as \<open>constant\<close> when it is
  a feature and be refused with the \<^verbatim>\<open>ValueError\<close> about a target of one unique value
  when it is a target. On the column \<open>c\<close> of three entries, all 5, the test of the
  constant column raises \<^verbatim>\<open>AttributeError\<close> instead (the attribute \<^verbatim>\<open>TARGET\<close> is looked
  up on \<^verbatim>\<open>FeatureType\<close>), whether \<open>c\<close> is a target or not.
\<close>

theorem constant_column_raises_AttributeError:
  "nunique \<lparr>s_dtype = NpDtype np_int64, s_values = [IntV 5, IntV 5, IntV 5]\<rparr> = 1 \<and>
   ColumnDescriptor_build_from_dataset frame_const ''c'' [] =
     Inl (Raise AttributeError [Lit ''TARGET''] None) \<and>
   ColumnDescriptor_build_from_dataset frame_const ''c'' [''c''] =
     Inl (Raise AttributeError [Lit ''TARGET''] None)"
  by code_simp

text \<open>
  Claim C2. A boolean column that is not constant should be profiled as \<open>Ordinal\<close> with
  a mode and without mean and median. The column \<open>b\<close> of entries True, False, True is
  numeric to \<^verbatim>\<open>is_numeric_dtype\<close>, so the first branch profiles it as \<open>Continuous\<close> with
  mean and median.
\<close>

theorem boolean_column_is_Continuous:
  "ColumnDescriptor_build_from_dataset frame_bool ''b'' [] =
     Inr \<lparr>name = ''b'', col_type = FEATURES, dtype = BOOLEAN,
          feature_type = Continuous, count = 3, mean = Some (Finite (2 / 3)),
          median = Some (Finite 1), mode = Some (BoolV True), null_count = 0,
          unique_valus = 2, imputation_scheme = None, imputation_value = None,
          is_selected = True\<rparr>"
  by code_simp

text \<open>
  Claim C4. On a frame of two columns both named \<open>x\<close> the build should return a
  descriptor whose \<^verbatim>\<open>duplicate_columns\<close> is the list of the one name \<open>x\<close>. The list is
  computed so, but the loop over the columns then raises \<^verbatim>\<open>ValueError\<close> on the first
  column: \<^verbatim>\<open>dataset["x"]\<close> is a frame of two columns, whose count has no single item.
\<close>

theorem duplicate_named_columns_raise:
  "mask_select (columns frame_xx) (duplicated [] (columns frame_xx)) = [''x''] \<and>
   DatasetDescriptor_build_from_dataset frame_xx [] =
     Inl (Raise ValueError [Lit ''can only convert an array of size 1 to a Python scalar''] None)"
  by code_simp

section \<open>The transformers\<close>

lemma drop_nothing: "drop_columns df [] = Inr df"
  by (simp add: drop_columns_def)

lemma check_no_names: "check_column_names [] df = Inr ()"
  by (simp add: check_column_names_def)

lemma nonempty_frame:
  "\<not> empty df \<Longrightarrow> check_X_for_type (Frame df) = Inr df \<and> columns df \<noteq> []"
  by (auto simp: empty_def columns_def)

lemma selector_rejects_empty_list:
  "cs_columns self = StrList [] \<Longrightarrow>
     \<exists>e. fst (ColumnSelector_fit self X) = Some e \<and> exn_of e = ValueError"
  by (simp add: ColumnSelector_fit_def Let_def check_column_length_def)

text \<open>
  Claim C10. A \<^verbatim>\<open>ColumnDropper\<close> whose list of columns to drop is empty is accepted:
  \<^verbatim>\<open>fit\<close> succeeds on every frame that is not empty, recording the empty list and all
  the names of the frame, and \<^verbatim>\<open>transform\<close> on the instance so fitted returns every
  frame that is not empty as it is.
\<close>

theorem empty_drop_list_identity:
  assumes "cd_columns self = StrList []" and "\<not> empty df" and "\<not> empty df'"
  shows "ColumnDropper_fit self (Frame df) =
           (None, self\<lparr>cd_columns_fit := Some [], cd_feature_names_fit := Some (columns df)\<rparr>) \<and>
         ColumnDropper_transform (snd (ColumnDropper_fit self (Frame df))) (Frame df') =
           Inr (Frame df')"
proof -
  have fit: "ColumnDropper_fit self (Frame df) =
      (None, self\<lparr>cd_columns_fit := Some [], cd_feature_names_fit := Some (columns df)\<rparr>)"
    using assms(1) nonempty_frame [OF assms(2)]
    by (simp add: ColumnDropper_fit_def Let_def drop_nothing check_no_names
        ColumnDropper_check_column_length_def)
  have "ColumnDropper_transform
      (self\<lparr>cd_columns_fit := Some [], cd_feature_names_fit := Some (columns df)\<rparr>) (Frame df') =
      Inr (Frame df')"
    using nonempty_frame [OF assms(3)]
    by (simp add: ColumnDropper_transform_def check_is_fitted_def getattr_def)
  with fit show ?thesis by simp
qed

theorem empty_drop_list_identity_witness:
  "cd_columns dropper_of_nothing = StrList [] \<and> \<not> empty frame_3col \<and> \<not> empty frame_a_int \<and>
   fst (ColumnDropper_fit dropper_of_nothing (Frame frame_3col)) = None \<and>
   ColumnDropper_transform (snd (ColumnDropper_fit dropper_of_nothing (Frame frame_3col)))
     (Frame frame_a_int) = Inr (Frame frame_a_int)"
proof -
  have a: "cd_columns dropper_of_nothing = StrList []"
    by (simp add: dropper_of_nothing_def)
  have b: "\<not> empty frame_3col"
    by (simp add: empty_def frame_3col_def)
  have c: "\<not> empty frame_a_int"
    by (simp add: empty_def frame_a_int_def)
  note fitted = empty_drop_list_identity [OF a b c]
  have d: "fst (ColumnDropper_fit dropper_of_nothing (Frame frame_3col)) = None"
    using conjunct1 [OF fitted] by simp
  have e: "ColumnDropper_transform (snd (ColumnDropper_fit dropper_of_nothing (Frame frame_3col)))
      (Frame frame_a_int) = Inr (Frame frame_a_int)"
    by (rule conjunct2 [OF fitted])
  from a b c d e show ?thesis by blast
qed

text \<open>
  Claim C7. \<^verbatim>\<open>transform\<close> before any \<^verbatim>\<open>fit\<close> should fail with \<^verbatim>\<open>NotFittedError\<close>.
  \<^verbatim>\<open>ColumnSelector.transform\<close> does not call \<^verbatim>\<open>check_is_fitted\<close>: on an instance never
  fitted it raises \<^verbatim>\<open>AttributeError\<close> when it reads \<^verbatim>\<open>columns_\<close>, while
  \<^verbatim>\<open>ColumnDropper.transform\<close> on the same frame raises \<^verbatim>\<open>NotFittedError\<close>.
\<close>

theorem unfitted_selector_raises_AttributeError:
  "ColumnSelector_transform selector_of_c (Frame frame_const) =
     Inl (Raise AttributeError
            [Lit ''ColumnSelector'', Lit '' object has no attribute '', Lit ''columns_''] None) \<and>
   (\<exists>m. ColumnDropper_transform dropper_of_nothing (Frame frame_const) =
     Inl (Raise NotFittedError m None))"
  by (simp add: ColumnSelector_transform_def selector_of_c_def frame_const_def empty_def
      getattr_def ColumnDropper_transform_def dropper_of_nothing_def check_is_fitted_def)

subsection \<open>The check of the input\<close>

lemma check_X_spec: "spec_input_error X = Some e \<Longrightarrow> check_X_for_type X = Inl e"
  by (cases X) (auto simp: empty_def EmptyInput_def WrongInputType_def split: if_splits)

lemma number_selector_fitted_state:
  "fst (PandasTypeSelector_fit number_selector (Frame frame_a_int)) = None"
  "pts_X_dtypes_fit number_selector_fitted = Some [(''a'', NpDtype np_int64)]"
  "pts_feature_names_fit number_selector_fitted = Some [''a'']"
  by (simp_all add: number_selector_fitted_def PandasTypeSelector_fit_def number_selector_def
      frame_a_int_def empty_def dtypes_def select_dtypes_def columns_def)

lemma identity_no_check:
  "\<not> it_check_X it \<Longrightarrow> shape_of X = Inr sh \<Longrightarrow> fst (IdentityTransformer_fit ca it X) = None"
  by (cases sh) (simp add: IdentityTransformer_fit_def)

text \<open>
  Claim C6, as stated, fails. \<^verbatim>\<open>IdentityTransformer\<close> never checks that its input is a
  frame: with \<^verbatim>\<open>check_X\<close> unset, \<^verbatim>\<open>fit\<close> accepts a numpy array and a frame of zero rows,
  and on an object without a shape it raises \<^verbatim>\<open>AttributeError\<close>. On an object that is
  no frame, \<^verbatim>\<open>ColumnSelector.fit\<close> with an empty list of columns raises the \<^verbatim>\<open>ValueError\<close>
  about the list first, \<^verbatim>\<open>ColumnDropper.transform\<close> on an instance never fitted raises
  \<^verbatim>\<open>NotFittedError\<close>, and \<^verbatim>\<open>PandasTypeSelector.transform\<close> raises \<^verbatim>\<open>AttributeError\<close> when it
  reads the types of the input before the check.
\<close>

theorem input_check_counterexample:
  "fst (IdentityTransformer_fit Inr identity_unchecked (NdArray 2 2 [1, 2, 3, 4])) = None \<and>
   fst (IdentityTransformer_fit Inr identity_unchecked (Frame frame_no_rows)) = None \<and>
   fst (IdentityTransformer_fit Inr identity_unchecked PyOther) =
     Some (Raise AttributeError [Lit ''object has no attribute '', Lit ''shape''] None) \<and>
   fst (ColumnSelector_fit selector_of_nothing PyOther) =
     Some (Raise ValueError
             [Lit ''Expected columns to be at least of length 1, found length of 0 instead''] None) \<and>
   (\<exists>m. ColumnDropper_transform dropper_of_nothing PyOther = Inl (Raise NotFittedError m None)) \<and>
   fst (PandasTypeSelector_fit number_selector (Frame frame_a_int)) = None \<and>
   PandasTypeSelector_transform number_selector_fitted PyOther =
     Inl (Raise AttributeError [Lit ''object has no attribute '', Lit ''dtypes''] None)"
  by (simp add: IdentityTransformer_fit_def identity_unchecked_def shape_def frame_no_rows_def
      ColumnSelector_fit_def selector_of_nothing_def check_column_length_def
      ColumnDropper_transform_def dropper_of_nothing_def check_is_fitted_def
      number_selector_fitted_def PandasTypeSelector_fit_def number_selector_def frame_a_int_def
      empty_def dtypes_def select_dtypes_def columns_def
      PandasTypeSelector_transform_def getattr_def dtypes_differ_def reraise_ValueError_def)

lemma identity_unchecked_fit:
  "\<not> it_check_X it \<Longrightarrow> shape_of X = Inr (n, m) \<Longrightarrow>
     IdentityTransformer_fit ca it X =
       (None, it\<lparr>it_n_samples_fit := Some n, it_n_features_in_fit := Some m\<rparr>)"
  by (simp add: IdentityTransformer_fit_def)

lemma identity_unchecked_transform:
  "\<not> it_check_X it \<Longrightarrow> shape_of X = Inr (n, m) \<Longrightarrow> it_n_features_in_fit it = Some m \<Longrightarrow>
     IdentityTransformer_transform ca it X = Inr X"
  by (simp add: IdentityTransformer_transform_def check_is_fitted_def getattr_def)

lemma identity_checked_fails:
  "it_check_X it \<Longrightarrow> ca X = Inl a \<Longrightarrow>
     fst (IdentityTransformer_fit ca it X) = Some a \<and> IdentityTransformer_transform ca it X = Inl a"
  by (simp add: IdentityTransformer_fit_def IdentityTransformer_transform_def)

lemma zip_same: "\<not> list_ex (\<lambda>(a, b). snd a \<noteq> snd b) (zip xs xs)"
  by (induction xs) auto

lemma type_selector_transform_empty:
  assumes "spec_input_error (Frame df) = Some e"
    and "pts_X_dtypes_fit pts = Some (dtypes df)" and "pts_feature_names_fit pts \<noteq> None"
  shows "PandasTypeSelector_transform pts (Frame df) = Inl e"
proof -
  have same: "dtypes_differ (dtypes df) (Frame df) = Inr ()"
    by (simp add: dtypes_differ_def zip_same)
  show ?thesis
    using assms(2,3) check_X_spec [OF assms(1)] same
    by (simp add: PandasTypeSelector_transform_def check_is_fitted_def getattr_def
        reraise_ValueError_def)
qed

text \<open>
  Claim C6, amended. On an input that is no frame (\<open>WrongInputType\<close>, a \<^verbatim>\<open>TypeError\<close>) or a
  frame of zero rows (\<open>EmptyInput\<close>, a \<^verbatim>\<open>ValueError\<close>), that failure is what
  \<^verbatim>\<open>ColumnDropper.fit\<close>, \<^verbatim>\<open>PandasTypeSelector.fit\<close> and \<^verbatim>\<open>ColumnSelector.transform\<close> raise, what
  \<^verbatim>\<open>ColumnSelector.fit\<close> raises when its list of columns is not empty, what
  \<^verbatim>\<open>ColumnDropper.transform\<close> raises once \<^verbatim>\<open>feature_names_\<close> is set, and what
  \<^verbatim>\<open>PandasTypeSelector.transform\<close> raises on a fitted instance when the input is a frame
  with the column types of fit time. \<^verbatim>\<open>IdentityTransformer\<close> does not make this check: with
  \<^verbatim>\<open>check_X\<close> unset, \<^verbatim>\<open>fit\<close> succeeds on such an input that has a two-dimensional shape,
  recording it, and \<^verbatim>\<open>transform\<close> returns it unchanged when the number of columns is the
  one recorded; with \<^verbatim>\<open>check_X\<close> set, both raise what \<^verbatim>\<open>check_array\<close> raises on the input.
\<close>

theorem tabular_input_rejected:
  assumes "spec_input_error X = Some e"
  shows "fst (ColumnDropper_fit cd X) = Some e \<and>
         fst (PandasTypeSelector_fit pts X) = Some e \<and>
         ColumnSelector_transform cs X = Inl e \<and>
         (as_list (cs_columns cs) \<noteq> [] \<longrightarrow> fst (ColumnSelector_fit cs X) = Some e) \<and>
         (cd_feature_names_fit cd \<noteq> None \<longrightarrow> ColumnDropper_transform cd X = Inl e) \<and>
         (\<forall>df. X = Frame df \<and> pts_X_dtypes_fit pts = Some (dtypes df) \<and>
               pts_feature_names_fit pts \<noteq> None \<longrightarrow>
               PandasTypeSelector_transform pts X = Inl e) \<and>
         exn_of e = (if is_frame X then ValueError else TypeError) \<and>
         (\<not> it_check_X it \<longrightarrow>
            (\<forall>n m. shape_of X = Inr (n, m) \<longrightarrow>
               IdentityTransformer_fit ca it X =
                 (None, it\<lparr>it_n_samples_fit := Some n, it_n_features_in_fit := Some m\<rparr>) \<and>
               (it_n_features_in_fit it = Some m \<longrightarrow>
                  IdentityTransformer_transform ca it X = Inr X))) \<and>
         (it_check_X it \<longrightarrow>
            (\<forall>a. ca X = Inl a \<longrightarrow>
               fst (IdentityTransformer_fit ca it X) = Some a \<and>
               IdentityTransformer_transform ca it X = Inl a))"
proof -
  note chk = check_X_spec [OF assms]
  have 1: "fst (ColumnDropper_fit cd X) = Some e"
    by (simp add: ColumnDropper_fit_def Let_def chk)
  have 2: "fst (PandasTypeSelector_fit pts X) = Some e"
    by (simp add: PandasTypeSelector_fit_def chk)
  have 3: "ColumnSelector_transform cs X = Inl e"
    by (simp add: ColumnSelector_transform_def chk)
  have 4: "as_list (cs_columns cs) \<noteq> [] \<longrightarrow> fst (ColumnSelector_fit cs X) = Some e"
    by (simp add: ColumnSelector_fit_def Let_def check_column_length_def chk)
  have 5: "cd_feature_names_fit cd \<noteq> None \<longrightarrow> ColumnDropper_transform cd X = Inl e"
    by (auto simp: ColumnDropper_transform_def check_is_fitted_def chk)
  have 6: "\<forall>df. X = Frame df \<and> pts_X_dtypes_fit pts = Some (dtypes df) \<and>
      pts_feature_names_fit pts \<noteq> None \<longrightarrow> PandasTypeSelector_transform pts X = Inl e"
    using assms type_selector_transform_empty by blast
  have 7: "exn_of e = (if is_frame X then ValueError else TypeError)"
    using assms by (cases X) (auto simp: EmptyInput_def WrongInputType_def split: if_splits)
  have 8: "\<not> it_check_X it \<longrightarrow>
      (\<forall>n m. shape_of X = Inr (n, m) \<longrightarrow>
         IdentityTransformer_fit ca it X =
           (None, it\<lparr>it_n_samples_fit := Some n, it_n_features_in_fit := Some m\<rparr>) \<and>
         (it_n_features_in_fit it = Some m \<longrightarrow> IdentityTransformer_transform ca it X = Inr X))"
    using identity_unchecked_fit identity_unchecked_transform by blast
  have 9: "it_check_X it \<longrightarrow>
      (\<forall>a. ca X = Inl a \<longrightarrow>
         fst (IdentityTransformer_fit ca it X) = Some a \<and>
         IdentityTransformer_transform ca it X = Inl a)"
    using identity_checked_fails by blast
  from 1 2 3 4 5 6 7 8 9 show ?thesis by blast
qed

theorem tabular_input_rejected_witness:
  "spec_input_error (NdArray 2 2 [1, 2, 3, 4]) = Some WrongInputType \<and>
   fst (ColumnDropper_fit dropper_fitted (NdArray 2 2 [1, 2, 3, 4])) = Some WrongInputType \<and>
   fst (PandasTypeSelector_fit number_selector (NdArray 2 2 [1, 2, 3, 4])) = Some WrongInputType \<and>
   ColumnSelector_transform selector_of_c (NdArray 2 2 [1, 2, 3, 4]) = Inl WrongInputType \<and>
   fst (ColumnSelector_fit selector_of_c (NdArray 2 2 [1, 2, 3, 4])) = Some WrongInputType \<and>
   ColumnDropper_transform dropper_fitted (NdArray 2 2 [1, 2, 3, 4]) = Inl WrongInputType \<and>
   exn_of WrongInputType = TypeError \<and>
   fst (IdentityTransformer_fit Inr identity_fitted (NdArray 2 2 [1, 2, 3, 4])) = None \<and>
   IdentityTransformer_transform Inr identity_fitted (NdArray 2 2 [1, 2, 3, 4]) =
     Inr (NdArray 2 2 [1, 2, 3, 4]) \<and>
   spec_input_error (Frame frame_no_rows) = Some EmptyInput \<and>
   fst (ColumnDropper_fit dropper_fitted (Frame frame_no_rows)) = Some EmptyInput \<and>
   fst (PandasTypeSelector_fit number_selector_fitted (Frame frame_no_rows)) = Some EmptyInput \<and>
   ColumnSelector_transform selector_of_c (Frame frame_no_rows) = Inl EmptyInput \<and>
   fst (ColumnSelector_fit selector_of_c (Frame frame_no_rows)) = Some EmptyInput \<and>
   ColumnDropper_transform dropper_fitted (Frame frame_no_rows) = Inl EmptyInput \<and>
   PandasTypeSelector_transform number_selector_fitted (Frame frame_no_rows) = Inl EmptyInput \<and>
   exn_of EmptyInput = ValueError \<and>
   fst (IdentityTransformer_fit check_min_samples identity_checked (Frame frame_no_rows)) =
     Some (Raise ValueError [Lit ''Found array with 0 sample(s)''] None) \<and>
   IdentityTransformer_transform check_min_samples identity_checked (Frame frame_no_rows) =
     Inl (Raise ValueError [Lit ''Found array with 0 sample(s)''] None)"
proof -
  have a: "spec_input_error (NdArray 2 2 [1, 2, 3, 4]) = Some WrongInputType"
    by simp
  have b: "spec_input_error (Frame frame_no_rows) = Some EmptyInput"
    by (simp add: frame_no_rows_def)
  have c: "as_list (cs_columns selector_of_c) \<noteq> []"
    by (simp add: selector_of_c_def)
  have d: "cd_feature_names_fit dropper_fitted \<noteq> None"
    by (simp add: dropper_fitted_def)
  have f: "\<not> it_check_X identity_fitted \<and> it_n_features_in_fit identity_fitted = Some 2 \<and>
      shape_of (NdArray 2 2 [1, 2, 3, 4]) = Inr (2, 2)"
    by (simp add: identity_fitted_def)
  have g: "pts_X_dtypes_fit number_selector_fitted = Some (dtypes frame_no_rows) \<and>
      pts_feature_names_fit number_selector_fitted \<noteq> None"
    by (simp add: number_selector_fitted_state frame_no_rows_def dtypes_def)
  have h: "it_check_X identity_checked \<and>
      check_min_samples (Frame frame_no_rows) =
        Inl (Raise ValueError [Lit ''Found array with 0 sample(s)''] None)"
    by (simp add: identity_checked_def check_min_samples_def frame_no_rows_def shape_def)
  note A = tabular_input_rejected [OF a, of dropper_fitted number_selector selector_of_c
      identity_fitted Inr]
  note B = tabular_input_rejected [OF b, of dropper_fitted number_selector_fitted selector_of_c
      identity_checked check_min_samples]
  show ?thesis
    using a b c d f g h A B by auto
qed


subsection \<open>A change of storage type between fit and transform\<close>

lemma same_labels_differ:
  "map fst xs = map fst ys \<Longrightarrow> xs \<noteq> ys \<Longrightarrow> list_ex (\<lambda>(a, b). snd a \<noteq> snd b) (zip xs ys)"
proof (induction xs arbitrary: ys)
  case Nil
  then show ?case by simp
next
  case (Cons x xs)
  then obtain y ys' where ys: "ys = y # ys'" by (cases ys) auto
  with Cons show ?case by (cases x; cases y) auto
qed

lemma dtypes_differ_frame:
  assumes "dtypes df \<noteq> fd"
  shows "dtypes_differ fd (Frame df) =
     Inl (if map fst fd \<noteq> map fst (dtypes df)
          then Raise ValueError [Lit ''Can only compare identically-labeled Series objects''] None
          else Raise ValueError
                 [Lit (''Column dtypes were not equal during fit and transform. Fit types: '' @ [CHR 0x0A]),
                  DtypesF fd, Lit ([CHR 0x0A] @ ''transform: '' @ [CHR 0x0A]),
                  DtypesF (dtypes df)] None)"
proof (cases "map fst fd = map fst (dtypes df)")
  case True
  with assms have "list_ex (\<lambda>(a, b). snd a \<noteq> snd b) (zip fd (dtypes df))"
    using same_labels_differ [of fd "dtypes df"] by auto
  with True show ?thesis by (simp add: dtypes_differ_def)
next
  case False
  then show ?thesis by (simp add: dtypes_differ_def)
qed

text \<open>
  Claim C9, as stated, fails. The selector is fitted on a frame whose one column \<open>a\<close>
  is of type int64. On a frame in which \<open>a\<close> is of type float64 and a column \<open>b\<close> is
  new, \<^verbatim>\<open>transform\<close> fails with the \<^verbatim>\<open>ValueError\<close> of a schema mismatch, but its cause is
  the engine's refusal to compare Series of different labels: neither the failure nor
  its cause lists the two sets of types.
\<close>

theorem schema_mismatch_counterexample:
  "pts_X_dtypes_fit number_selector_fitted = Some [(''a'', NpDtype np_int64)] \<and>
   pts_feature_names_fit number_selector_fitted = Some [''a''] \<and>
   map_of (dtypes frame_a_float_b) ''a'' = Some (NpDtype np_float64) \<and>
   PandasTypeSelector_transform number_selector_fitted (Frame frame_a_float_b) =
     Inl (Raise ValueError [Lit ''Columns were not equal during fit and transform'']
            (Some (Raise ValueError
                     [Lit ''Can only compare identically-labeled Series objects''] None))) \<and>
   \<not> carries_type_sets [(''a'', NpDtype np_int64)] (dtypes frame_a_float_b)
       (Raise ValueError [Lit ''Columns were not equal during fit and transform'']
          (Some (Raise ValueError
                   [Lit ''Can only compare identically-labeled Series objects''] None)))"
  by (simp add: number_selector_fitted_state frame_a_float_b_def dtypes_def
      PandasTypeSelector_transform_def check_is_fitted_def getattr_def dtypes_differ_def
      reraise_ValueError_def carries_type_sets_def)

text \<open>
  Claim C9, amended. After \<^verbatim>\<open>fit\<close>, \<^verbatim>\<open>transform\<close> on a frame in which a selected column's
  storage type differs from the type recorded at fit time fails with the \<^verbatim>\<open>ValueError\<close>
  of a schema mismatch, raised from a \<^verbatim>\<open>ValueError\<close> as its cause. When the frame has
  the column labels of fit time, in the same order, that cause lists the types of fit
  time and the types of the frame; when the labels differ, the cause is the engine's
  refusal to compare Series of different labels.
\<close>

theorem schema_mismatch:
  assumes "pts_X_dtypes_fit self = Some fd" and "pts_feature_names_fit self = Some fn"
    and "\<exists>c. c \<in> set fn \<and> map_of (dtypes df) c \<noteq> map_of fd c"
  shows "\<exists>c. PandasTypeSelector_transform self (Frame df) =
            Inl (Raise ValueError [Lit ''Columns were not equal during fit and transform''] (Some c)) \<and>
          exn_of c = ValueError \<and>
          (map fst (dtypes df) = map fst fd \<longrightarrow>
             carries_type_sets fd (dtypes df)
               (Raise ValueError [Lit ''Columns were not equal during fit and transform''] (Some c))) \<and>
          (map fst (dtypes df) \<noteq> map fst fd \<longrightarrow>
             c = Raise ValueError [Lit ''Can only compare identically-labeled Series objects''] None)"
proof -
  from assms(3) have ne: "dtypes df \<noteq> fd" by auto
  show ?thesis
    using assms(1,2) dtypes_differ_frame [OF ne]
    by (auto simp: PandasTypeSelector_transform_def check_is_fitted_def getattr_def
        reraise_ValueError_def carries_type_sets_def)
qed

theorem schema_mismatch_witness:
  "pts_X_dtypes_fit number_selector_fitted = Some [(''a'', NpDtype np_int64)] \<and>
   pts_feature_names_fit number_selector_fitted = Some [''a''] \<and>
   ''a'' \<in> set [''a''] \<and>
   map_of (dtypes frame_a_float) ''a'' \<noteq> map_of [(''a'', NpDtype np_int64)] ''a'' \<and>
   map fst (dtypes frame_a_float) = map fst [(''a'', NpDtype np_int64)] \<and>
   (\<exists>c. PandasTypeSelector_transform number_selector_fitted (Frame frame_a_float) =
            Inl (Raise ValueError [Lit ''Columns were not equal during fit and transform''] (Some c)) \<and>
        exn_of c = ValueError \<and>
        carries_type_sets [(''a'', NpDtype np_int64)] (dtypes frame_a_float)
          (Raise ValueError [Lit ''Columns were not equal during fit and transform''] (Some c)))"
proof -
  have a: "pts_X_dtypes_fit number_selector_fitted = Some [(''a'', NpDtype np_int64)]"
    by (rule number_selector_fitted_state)
  have b: "pts_feature_names_fit number_selector_fitted = Some [''a'']"
    by (rule number_selector_fitted_state)
  have c: "\<exists>c. c \<in> set [''a''] \<and>
      map_of (dtypes frame_a_float) c \<noteq> map_of [(''a'', NpDtype np_int64)] c"
    by (simp add: frame_a_float_def dtypes_def)
  have d: "map fst (dtypes frame_a_float) = map fst [(''a'', NpDtype np_int64)]"
    by (simp add: frame_a_float_def dtypes_def)
  have e: "map_of (dtypes frame_a_float) ''a'' \<noteq> map_of [(''a'', NpDtype np_int64)] ''a''"
    by (simp add: frame_a_float_def dtypes_def)
  from schema_mismatch [OF a b c] d
  have "\<exists>c. PandasTypeSelector_transform number_selector_fitted (Frame frame_a_float) =
            Inl (Raise ValueError [Lit ''Columns were not equal during fit and transform''] (Some c)) \<and>
        exn_of c = ValueError \<and>
        carries_type_sets [(''a'', NpDtype np_int64)] (dtypes frame_a_float)
          (Raise ValueError [Lit ''Columns were not equal during fit and transform''] (Some c))"
    by blast
  with a b d e show ?thesis by simp
qed

end
